theory Spec2Isabelle
  imports Complex_Main "HOL-Library.Log_Nat"
begin

section \<open>Data model (types.ts)\<close>

text \<open>
  The interfaces of \<^verbatim>\<open>types.ts\<close>. A JavaScript \<^verbatim>\<open>number\<close> that holds a score, a
  counter or an index is an \<^typ>\<open>int\<close>; a \<^verbatim>\<open>string\<close> is a \<^typ>\<open>string\<close> (texts are taken
  to be ASCII). A field that the code reads through \<^verbatim>\<open>??\<close> or through a truthiness test
  is an \<^typ>\<open>'a option\<close>, with \<open>None\<close> for \<^verbatim>\<open>undefined\<close> and \<^verbatim>\<open>null\<close>.
\<close>

datatype Status = locked | active | passed

record Lesson =
  week :: int
  day :: int
  phase :: string
  topic :: string
  description :: string
  references :: string
  part :: string
  sequence :: string

record LessonProgress = Lesson +
  status :: Status
  score :: int
  twistsCompleted :: int

datatype Sender = user | ai | system

record Reference =
  title :: string
  uri :: string

text \<open>
  A \<^verbatim>\<open>ChatMessage\<close> without its \<^verbatim>\<open>id\<close>, which the code draws from the clock and the
  random generator and never reads again.
\<close>

record ChatMessage =
  sender :: Sender
  msg_text :: string
  msg_references :: "Reference list option"

datatype AppStatus =
    IDLE | GENERATING | AWAITING_ANSWER | EVALUATING | TOPIC_PASSED | COMPLETED
  | GENERATING_MOCK_EXAM | MOCK_EXAM_IN_PROGRESS | MOCK_EXAM_COMPLETED

record Scores =
  rules :: "int option"
  calculations :: "int option"
  compliance :: "int option"
  alternatives :: "int option"
  planning :: "int option"
  clarity :: "int option"

record Feedback =
  good :: "string list option"
  corrections :: "string list option"
  takeaways :: "string list option"

record EvaluationResult =
  totalScore :: "int option"
  scores :: "Scores option"
  feedback :: "Feedback option"
  knowledgePoints :: "string list option"
  detailedExplanation :: "string option"

text \<open>The four answer letters \<^verbatim>\<open>'A' | 'B' | 'C' | 'D'\<close> and the options they select.\<close>

datatype Letter = Letter_A | Letter_B | Letter_C | Letter_D

record Options =
  option_A :: string
  option_B :: string
  option_C :: string
  option_D :: string

record MockQuestion =
  mq_question :: string
  options :: Options
  correctAnswer :: Letter
  mq_topic :: string

text \<open>The scenario held in \<^verbatim>\<open>scenarioRef\<close>, and the state of a mock exam.\<close>

record Scenario =
  scenario :: string
  question :: string

record MockExam =
  questions :: "MockQuestion list"
  currentQuestionIndex :: nat
  answers :: "string list"

text \<open>
  The state of the \<^verbatim>\<open>App\<close> component: its \<^verbatim>\<open>useState\<close> cells and the \<^verbatim>\<open>scenarioRef\<close>.
  \<^verbatim>\<open>currentLessonIndex\<close> is an \<^typ>\<open>int\<close> because the initialisation stores
  \<^verbatim>\<open>lessons.length - 1\<close>, which is \<open>-1\<close> for an empty collection.
\<close>

record App =
  lessons :: "LessonProgress list"
  currentLessonIndex :: int
  messages :: "ChatMessage list"
  appStatus :: AppStatus
  inputDisabled :: bool
  mockExam :: "MockExam option"
  isSidebarOpen :: bool
  scenarioRef :: "Scenario option"

text \<open>A thrown \<^verbatim>\<open>Error\<close> with its message.\<close>

datatype error = Error (message: string)

section \<open>JavaScript primitives used by the code\<close>

text \<open>
  \<^verbatim>\<open>xs[i]\<close>: \<^verbatim>\<open>undefined\<close> outside the array. \<^verbatim>\<open>a ?? b\<close>. \<^verbatim>\<open>xs.join(sep)\<close>.
  The decimal rendering of an integer in a template string.
\<close>

definition at_index :: "'a list \<Rightarrow> int \<Rightarrow> 'a option" where
  "at_index xs i = (if 0 \<le> i \<and> i < int (length xs) then Some (xs ! nat i) else None)"

definition nullish :: "'a option \<Rightarrow> 'a \<Rightarrow> 'a" where
  "nullish v d = (case v of None \<Rightarrow> d | Some x \<Rightarrow> x)"

fun join :: "string \<Rightarrow> string list \<Rightarrow> string" where
  "join sep [] = []"
| "join sep [x] = x"
| "join sep (x # y # ys) = x @ sep @ join sep (y # ys)"

definition digit_char :: "nat \<Rightarrow> char" where
  "digit_char d = ''0123456789'' ! d"

fun show_nat :: "nat \<Rightarrow> string" where
  "show_nat n = (if n < 10 then [digit_char n] else show_nat (n div 10) @ [digit_char (n mod 10)])"

declare show_nat.simps [simp del]

definition show_int :: "int \<Rightarrow> string" where
  "show_int i = (if i < 0 then ''-'' @ show_nat (nat (- i)) else show_nat (nat i))"

text \<open>
  The message of the \<^verbatim>\<open>TypeError\<close> raised by reading property \<open>p\<close> of
  \<^verbatim>\<open>undefined\<close> (the wording of V8).
\<close>

definition undefined_property :: "string \<Rightarrow> error" where
  "undefined_property p =
     Error (''Cannot read properties of undefined (reading '' @ [CHR 0x27] @ p @ [CHR 0x27] @ '')'')"

text \<open>
  \<^verbatim>\<open>String.prototype.trim\<close> and \<^verbatim>\<open>toUpperCase\<close>, on ASCII: the white space removed
  is space, tab, line feed, vertical tab, form feed and carriage return, and the letters
  \<open>a\<close> to \<open>z\<close> are mapped to \<open>A\<close> to \<open>Z\<close>.
\<close>

definition is_space :: "char \<Rightarrow> bool" where
  "is_space c \<longleftrightarrow> c \<in> {CHR '' '', CHR 0x09, CHR 0x0A, CHR 0x0B, CHR 0x0C, CHR 0x0D}"

definition trim :: "string \<Rightarrow> string" where
  "trim s = rev (dropWhile is_space (rev (dropWhile is_space s)))"

definition upper_char :: "char \<Rightarrow> char" where
  "upper_char c =
     (let n = (of_char c :: nat) in if 97 \<le> n \<and> n \<le> 122 then char_of (n - 32) else c)"

definition toUpperCase :: "string \<Rightarrow> string" where
  "toUpperCase s = map upper_char s"

section \<open>The component's handlers (App.tsx)\<close>

text \<open>
  The functions imported from \<^verbatim>\<open>services/geminiService\<close>, as the handlers see them:
  each call either throws or returns a value of the declared type. The handlers are
  parametric in them. Every handler returns the new state together with the list of
  service calls it made, in order.
\<close>

record geminiService =
  svc_generateScenario ::
    "Lesson \<Rightarrow> LessonProgress list \<Rightarrow> string option \<Rightarrow> bool \<Rightarrow> error + Scenario"
  svc_evaluateAnswer :: "string \<Rightarrow> string \<Rightarrow> LessonProgress list \<Rightarrow> error + EvaluationResult"
  svc_generateMockExamQuestions :: "LessonProgress list \<Rightarrow> error + MockQuestion list"

datatype request =
    GenerateScenario Lesson "LessonProgress list" "string option" bool
  | EvaluateAnswer string string "LessonProgress list"
  | GenerateMockExamQuestions "LessonProgress list"

definition addMessage :: "Sender \<Rightarrow> string \<Rightarrow> App \<Rightarrow> App" where
  "addMessage who txt s =
     s\<lparr>messages := messages s @ [\<lparr>sender = who, msg_text = txt, msg_references = None\<rparr>]\<rparr>"

definition passedLessons :: "App \<Rightarrow> LessonProgress list" where
  "passedLessons s = filter (\<lambda>l. status l = passed) (lessons s)"


definition as_Lesson :: "LessonProgress \<Rightarrow> Lesson" where
  "as_Lesson l =
     \<lparr>week = week l, day = day l, phase = phase l, topic = topic l, description = description l,
      references = references l, part = part l, sequence = sequence l\<rparr>"

subsection \<open>Mock exam: display, grading, answers\<close>

definition letter_text :: "Letter \<Rightarrow> string" where
  "letter_text c = (case c of Letter_A \<Rightarrow> ''A'' | Letter_B \<Rightarrow> ''B'' | Letter_C \<Rightarrow> ''C'' | Letter_D \<Rightarrow> ''D'')"

definition option_text :: "Options \<Rightarrow> Letter \<Rightarrow> string" where
  "option_text os c =
     (case c of Letter_A \<Rightarrow> option_A os | Letter_B \<Rightarrow> option_B os
              | Letter_C \<Rightarrow> option_C os | Letter_D \<Rightarrow> option_D os)"

definition displayCurrentMockQuestion :: "MockQuestion \<Rightarrow> nat \<Rightarrow> nat \<Rightarrow> App \<Rightarrow> App" where
  "displayCurrentMockQuestion questionData index totalCount s =
     (addMessage ai
        (''**Question '' @ show_nat (index + 1) @ '' of '' @ show_nat totalCount @ ''** (Topic: ''
           @ mq_topic questionData @ '')\<newline>\<newline>''
         @ mq_question questionData @ ''\<newline>\<newline>''
         @ ''A. '' @ option_A (options questionData) @ ''\<newline>''
         @ ''B. '' @ option_B (options questionData) @ ''\<newline>''
         @ ''C. '' @ option_C (options questionData) @ ''\<newline>''
         @ ''D. '' @ option_D (options questionData)) s)
     \<lparr>inputDisabled := False\<rparr>"

text \<open>
  The line pushed to \<^verbatim>\<open>results\<close> for a question answered wrongly. \<^verbatim>\<open>userAnswer\<close> is
  \<^verbatim>\<open>answers[i]\<close>, \<open>None\<close> when there is no such element;
  \<^verbatim>\<open>userAnswer || 'No Answer'\<close> also replaces the empty string.
\<close>

definition shown_answer :: "string option \<Rightarrow> string" where
  "shown_answer userAnswer =
     (case userAnswer of None \<Rightarrow> ''No Answer'' | Some a \<Rightarrow> if a = [] then ''No Answer'' else a)"

definition result_line :: "nat \<Rightarrow> MockQuestion \<Rightarrow> string option \<Rightarrow> string" where
  "result_line i q userAnswer =
     ''**Question '' @ show_nat (i + 1) @ '' (Topic: '' @ mq_topic q @ '')**\<newline>''
     @ ''- Your Answer: '' @ shown_answer userAnswer @ ''\<newline>''
     @ ''- Correct Answer: '' @ letter_text (correctAnswer q) @ '': ''
     @ option_text (options q) (correctAnswer q)"

text \<open>
  The \<^verbatim>\<open>forEach\<close> loop of \<^verbatim>\<open>finishMockExam\<close>: \<open>i\<close> is the index of the head of the
  remaining questions, the pair is \<^verbatim>\<open>(score, results)\<close>.
\<close>

fun grade :: "string list \<Rightarrow> MockQuestion list \<Rightarrow> nat \<Rightarrow> nat \<times> string list \<Rightarrow> nat \<times> string list" where
  "grade as [] i acc = acc"
| "grade as (q # qs) i (sc, results) =
     (let userAnswer = at_index as (int i) in
      if userAnswer = Some (letter_text (correctAnswer q))
      then grade as qs (i + 1) (sc + 1, results)
      else grade as qs (i + 1) (sc, results @ [result_line i q userAnswer]))"

text \<open>
  JavaScript numbers are IEEE 754 binary64 values. A finite binary64 value is a rational,
  and \<open>/\<close> and \<open>*\<close> return the exact result rounded to the nearest value with a 53-bit
  significand, ties to even (\<open>to_double\<close>; exponent range and signed zero play no role for
  the quotients of counts computed here). \<^verbatim>\<open>x.toFixed(1)\<close>, for \<open>0 \<le> x < 10\<^sup>2\<^sup>1\<close>, takes the
  integer \<open>n\<close> for which \<open>n / 10 - x\<close> is closest to zero, the larger one of two, and
  prints \<open>n\<close> with a point before its last digit.
\<close>

definition ilog2 :: "rat \<Rightarrow> int" where
  "ilog2 q =
     (let (a, b) = quotient_of q; d = bitlen a - bitlen b
      in if 2 powi d \<le> q then d else d - 1)"

definition round_half_even :: "rat \<Rightarrow> int" where
  "round_half_even x =
     (let f = \<lfloor>x\<rfloor>; r = x - of_int f
      in if r < 1 / 2 then f else if 1 / 2 < r then f + 1 else if even f then f else f + 1)"

definition to_double :: "rat \<Rightarrow> rat" where
  "to_double q =
     (if q = 0 then 0
      else let e = ilog2 \<bar>q\<bar> - 52 in of_int (round_half_even (q * 2 powi (- e))) * 2 powi e)"

definition js_div :: "rat \<Rightarrow> rat \<Rightarrow> rat" where
  "js_div x y = to_double (x / y)"

definition js_mul :: "rat \<Rightarrow> rat \<Rightarrow> rat" where
  "js_mul x y = to_double (x * y)"

definition toFixed1_tenths :: "rat \<Rightarrow> int" where
  "toFixed1_tenths x = \<lfloor>x * 10 + 1 / 2\<rfloor>"

definition toFixed1 :: "rat \<Rightarrow> string" where
  "toFixed1 x =
     (let n = toFixed1_tenths x in show_int (n div 10) @ ''.'' @ show_int (n mod 10))"

definition percentage :: "nat \<Rightarrow> nat \<Rightarrow> string" where
  "percentage sc totalQuestions =
     (if totalQuestions > 0
      then toFixed1 (js_mul (js_div (of_nat sc) (of_nat totalQuestions)) 100)
      else ''0'')"

definition summaryMessage :: "MockExam \<Rightarrow> string" where
  "summaryMessage finalExamState =
     (let (sc, results) = grade (answers finalExamState) (questions finalExamState) 0 (0, []);
          totalQuestions = length (questions finalExamState)
      in ''**Mock Exam Completed!**\<newline>\<newline>- **Score:** '' @ show_nat sc @ '' out of ''
           @ show_nat totalQuestions @ '' ('' @ percentage sc totalQuestions @ ''%)\<newline>\<newline>''
         @ (if length results > 0
            then ''**Review your incorrect answers:**\<newline>\<newline>'' @ join ''\<newline>\<newline>'' results
            else ''Excellent work! You answered all questions correctly!''))"

definition finishMockExam :: "MockExam \<Rightarrow> App \<Rightarrow> App" where
  "finishMockExam finalExamState s =
     (addMessage system (summaryMessage finalExamState) s)
     \<lparr>appStatus := MOCK_EXAM_COMPLETED, inputDisabled := True\<rparr>"

definition handleMockAnswer :: "string \<Rightarrow> App \<Rightarrow> App" where
  "handleMockAnswer answer s =
     (case mockExam s of
        None \<Rightarrow> s
      | Some ex \<Rightarrow>
          let upperCaseAnswer = toUpperCase (trim answer) in
          if upperCaseAnswer \<notin> set [''A'', ''B'', ''C'', ''D'']
          then addMessage system ''Invalid answer. Please enter A, B, C, or D.'' s
          else
            let s1 = (addMessage user answer s)\<lparr>inputDisabled := True\<rparr>;
                updatedAnswers = answers ex @ [upperCaseAnswer];
                nextIndex = currentQuestionIndex ex + 1;
                newState = ex\<lparr>answers := updatedAnswers, currentQuestionIndex := nextIndex\<rparr>;
                s2 = s1\<lparr>mockExam := Some newState\<rparr>
            in if nextIndex < length (questions ex)
               then displayCurrentMockQuestion (questions ex ! nextIndex) nextIndex
                      (length (questions ex)) s2
               else finishMockExam newState s2)"

subsection \<open>Submitting an answer\<close>

definition bullets :: "string list \<Rightarrow> string" where
  "bullets items = join ''\<newline>'' (map (\<lambda>item. ''- '' @ item) items)"

definition default_scores :: Scores where
  "default_scores =
     \<lparr>rules = Some 0, calculations = Some 0, compliance = Some 0, alternatives = Some 0,
      planning = Some 0, clarity = Some 0\<rparr>"

definition default_feedback :: Feedback where
  "default_feedback = \<lparr>good = Some [], corrections = Some [], takeaways = Some []\<rparr>"

definition feedback_text :: "EvaluationResult \<Rightarrow> string" where
  "feedback_text evaluation =
     (let sc = nullish (totalScore evaluation) 0;
          scs = nullish (scores evaluation) default_scores;
          feedbackDetails = nullish (feedback evaluation) default_feedback
      in ''**Score: '' @ show_int sc @ ''%**\<newline>\<newline>''
         @ ''**Rubric Breakdown:**\<newline>- Rules & Authority: '' @ show_int (nullish (rules scs) 0)
         @ ''% \<newline>- Calculations: '' @ show_int (nullish (calculations scs) 0)
         @ ''% \<newline>- Compliance: '' @ show_int (nullish (compliance scs) 0)
         @ ''% \<newline>- Alternatives: '' @ show_int (nullish (alternatives scs) 0)
         @ ''% \<newline>- Planning: '' @ show_int (nullish (planning scs) 0)
         @ ''% \<newline>- Clarity: '' @ show_int (nullish (clarity scs) 0) @ ''%\<newline>\<newline>''
         @ ''**What you did well:**\<newline>'' @ bullets (nullish (good feedbackDetails) [])
         @ ''\<newline>\<newline>''
         @ ''**Corrections:**\<newline>'' @ bullets (nullish (corrections feedbackDetails) [])
         @ ''\<newline>\<newline>''
         @ ''**Key takeaways:**\<newline>'' @ bullets (nullish (takeaways feedbackDetails) []))"

text \<open>The \<^verbatim>\<open>catch\<close> block of \<^verbatim>\<open>handleSendMessage\<close>.\<close>

definition evaluation_catch :: "error \<Rightarrow> App \<Rightarrow> App" where
  "evaluation_catch e s =
     (addMessage system
        (''Sorry, I encountered an error evaluating your answer: '' @ message e
           @ ''. Please try again.'') s)
     \<lparr>appStatus := AWAITING_ANSWER, inputDisabled := False\<rparr>"

definition twist_text :: "int \<Rightarrow> Scenario \<Rightarrow> string" where
  "twist_text currentTwists newScenarioData =
     ''**Twist '' @ show_int (currentTwists + 1) @ '':**\<newline>'' @ scenario newScenarioData
     @ ''\<newline>\<newline>**Question:**\<newline>'' @ question newScenarioData"

definition retry_text :: "Scenario \<Rightarrow> string" where
  "retry_text sc =
     ''Let's try that again. Here is the original scenario:\<newline>\<newline>**Scenario:**\<newline>''
     @ scenario sc @ ''\<newline>\<newline>**Question:**\<newline>'' @ question sc"

text \<open>
  The \<^verbatim>\<open>try\<close> block after \<^verbatim>\<open>evaluateAnswer\<close> has returned \<open>evaluation\<close>; \<open>cur\<close> is
  the scenario in \<^verbatim>\<open>scenarioRef\<close>. Reading \<^verbatim>\<open>lessons[currentLessonIndex].twistsCompleted\<close>
  outside the array throws into the \<^verbatim>\<open>catch\<close> block, as a failing \<^verbatim>\<open>generateScenario\<close>
  does; the state updates made before the throw stay. The lesson handed to
  \<^verbatim>\<open>generateScenario\<close> has the declared type \<^verbatim>\<open>Lesson\<close>.
\<close>

definition after_evaluation ::
  "geminiService \<Rightarrow> Scenario \<Rightarrow> EvaluationResult \<Rightarrow> App \<Rightarrow> App \<times> request list" where
  "after_evaluation svc cur evaluation s =
     (let sc = nullish (totalScore evaluation) 0;
          kps = nullish (knowledgePoints evaluation) [];
          s1 = addMessage ai (feedback_text evaluation) s
      in
      if sc \<ge> 90 then
        (case at_index (lessons s) (currentLessonIndex s) of
           None \<Rightarrow> (evaluation_catch (undefined_property ''twistsCompleted'') s1, [])
         | Some lesson \<Rightarrow>
             let currentTwists = twistsCompleted lesson in
             if currentTwists < 2 then
               let s2 = addMessage system
                          (''Excellent work! You've scored '' @ show_int sc
                             @ ''%. Let's cement your knowledge with a twist on the scenario.'') s1;
                   s3 = s2\<lparr>lessons := (lessons s2)[nat (currentLessonIndex s) :=
                                         lesson\<lparr>twistsCompleted := currentTwists + 1\<rparr>],
                          appStatus := GENERATING\<rparr>
               in
               (case svc_generateScenario svc (as_Lesson lesson) (passedLessons s)
                       (Some (scenario cur)) True of
                  Inl e \<Rightarrow> evaluation_catch e s3
                | Inr newScenarioData \<Rightarrow>
                    (addMessage ai (twist_text currentTwists newScenarioData)
                       (s3\<lparr>scenarioRef := Some newScenarioData\<rparr>))
                    \<lparr>appStatus := AWAITING_ANSWER, inputDisabled := False\<rparr>,
                [GenerateScenario (as_Lesson lesson) (passedLessons s) (Some (scenario cur)) True])
             else
               let s2 = addMessage system
                          (''Congratulations! You've mastered this topic with a score of ''
                             @ show_int sc @ ''%.'') s1
               in (s2\<lparr>lessons := (lessons s2)[nat (currentLessonIndex s) :=
                                       lesson\<lparr>status := passed, score := sc\<rparr>],
                       appStatus := TOPIC_PASSED\<rparr>, []))
      else
        let s2 = addMessage system
                   (''Your score is '' @ show_int sc
                      @ ''%. You need 90% to pass. Review the feedback and the model answer below. Let's try this topic again.'') s1;
            s3 = (if length kps > 0
                  then addMessage ai (''**Key Knowledge Points to Review:**\<newline>'' @ bullets kps) s2
                  else s2);
            s4 = (case detailedExplanation evaluation of
                    None \<Rightarrow> s3
                  | Some expl \<Rightarrow>
                      if expl = [] then s3
                      else addMessage ai (''**Model Answer & Explanation:**\<newline>'' @ expl) s3)
        in ((addMessage ai (retry_text cur) s4)
              \<lparr>appStatus := AWAITING_ANSWER, inputDisabled := False\<rparr>, []))"

definition handleSendMessage :: "geminiService \<Rightarrow> string \<Rightarrow> App \<Rightarrow> App \<times> request list" where
  "handleSendMessage svc userMessage s =
     (if appStatus s = MOCK_EXAM_IN_PROGRESS then (handleMockAnswer userMessage s, [])
      else
        case scenarioRef s of
          None \<Rightarrow> (s, [])
        | Some cur \<Rightarrow>
            let s1 = (addMessage user userMessage s)\<lparr>appStatus := EVALUATING, inputDisabled := True\<rparr>;
                req = EvaluateAnswer (scenario cur) userMessage (passedLessons s)
            in
            (case svc_evaluateAnswer svc (scenario cur) userMessage (passedLessons s) of
               Inl e \<Rightarrow> (evaluation_catch e s1, [req])
             | Inr evaluation \<Rightarrow>
                 (let (s2, reqs) = after_evaluation svc cur evaluation s1 in (s2, req # reqs))))"

subsection \<open>Starting a mock exam\<close>

definition mock_exam_catch :: "error \<Rightarrow> App \<Rightarrow> App" where
  "mock_exam_catch e s =
     (addMessage system
        (''Sorry, I encountered an error generating the mock exam: '' @ message e
           @ ''. Please try again later.'') s)
     \<lparr>appStatus := IDLE\<rparr>"

definition handleStartMockExam :: "geminiService \<Rightarrow> App \<Rightarrow> App \<times> request list" where
  "handleStartMockExam svc s =
     (let passedLs = passedLessons s in
      if length passedLs < 5
      then (addMessage system ''You need to pass at least 5 topics to start a mock exam.'' s, [])
      else
        let s1 = (addMessage system
                    ''Generating a mock exam based on your mastered topics. This may take a moment...''
                    (s\<lparr>appStatus := GENERATING_MOCK_EXAM, messages := []\<rparr>))
                 \<lparr>inputDisabled := True, isSidebarOpen := False\<rparr>
        in
        (case svc_generateMockExamQuestions svc passedLs of
           Inl e \<Rightarrow> mock_exam_catch e s1
         | Inr qs \<Rightarrow>
             if length qs > 0
             then displayCurrentMockQuestion (qs ! 0) 0 (length qs)
                    (s1\<lparr>mockExam := Some \<lparr>questions = qs, currentQuestionIndex = 0, answers = []\<rparr>,
                        appStatus := MOCK_EXAM_IN_PROGRESS\<rparr>)
             else mock_exam_catch (Error ''The generated exam had no questions.'') s1,
         [GenerateMockExamQuestions passedLs]))"

subsection \<open>Start-up and lesson selection\<close>

text \<open>
  The initialiser of the \<^verbatim>\<open>lessons\<close> cell: the collection saved in local storage when
  there is one, otherwise the lesson plan with every lesson locked. \<^verbatim>\<open>LESSON_PLAN\<close> is a
  constant of \<^verbatim>\<open>constants.ts\<close> and a parameter here; the saved collection is taken as
  already parsed.
\<close>

definition initial_lessons :: "Lesson list \<Rightarrow> LessonProgress list option \<Rightarrow> LessonProgress list" where
  "initial_lessons LESSON_PLAN savedProgress =
     (case savedProgress of
        Some saved \<Rightarrow> saved
      | None \<Rightarrow> map (\<lambda>l. Lesson.extend l (LessonProgress.fields locked 0 0)) LESSON_PLAN)"

definition mount :: "LessonProgress list \<Rightarrow> App" where
  "mount ls =
     \<lparr>lessons = ls, currentLessonIndex = 0, messages = [], appStatus = IDLE, inputDisabled = True,
      mockExam = None, isSidebarOpen = False, scenarioRef = None\<rparr>"

text \<open>\<^verbatim>\<open>Array.prototype.findIndex\<close>: the first index whose element satisfies \<open>P\<close>, or \<open>-1\<close>.\<close>

fun findIndex :: "('a \<Rightarrow> bool) \<Rightarrow> 'a list \<Rightarrow> int" where
  "findIndex P [] = - 1"
| "findIndex P (x # xs) =
     (if P x then 0 else let r = findIndex P xs in if r = - 1 then - 1 else r + 1)"

text \<open>
  The first effect of \<^verbatim>\<open>App\<close>. For an empty collection \<^verbatim>\<open>initialIndex\<close> is \<open>-1\<close>, the guard
  \<^verbatim>\<open>initialIndex < newLessons.length\<close> holds and reading \<^verbatim>\<open>newLessons[-1].status\<close>
  throws.
\<close>

definition welcome_message :: ChatMessage where
  "welcome_message =
     \<lparr>sender = system,
      msg_text = ''Welcome to your personalized IRS SEE Exam Prep Workflow. Click 'Start Today''
                 @ [CHR 0x5C, CHR 0x27] @ ''s Lesson' to begin.'',
      msg_references = None\<rparr>"

definition initialize :: "App \<Rightarrow> error + App" where
  "initialize s =
     (let firstLockedIndex = findIndex (\<lambda>l. status l \<noteq> passed) (lessons s);
          initialIndex = (if firstLockedIndex = - 1 then int (length (lessons s)) - 1
                          else firstLockedIndex);
          s1 = s\<lparr>currentLessonIndex := initialIndex\<rparr>
      in
      if initialIndex < int (length (lessons s1)) then
        (case at_index (lessons s1) initialIndex of
           None \<Rightarrow> Inl (undefined_property ''status'')
         | Some l \<Rightarrow>
             Inr ((if status l = locked
                   then s1\<lparr>lessons := (lessons s1)[nat initialIndex := l\<lparr>status := active\<rparr>]\<rparr>
                   else s1)
                  \<lparr>messages := [welcome_message], appStatus := IDLE, inputDisabled := True\<rparr>))
      else Inr (s1\<lparr>messages := [welcome_message], appStatus := IDLE, inputDisabled := True\<rparr>))"

text \<open>
  \<^verbatim>\<open>handleSelectLesson\<close>; the index comes from a click on one of the listed lessons.
  Reading the status of a lesson outside the array throws.
\<close>

definition selected_message :: ChatMessage where
  "selected_message =
     \<lparr>sender = system,
      msg_text = ''You've selected a new lesson. Click 'Start Today''
                 @ [CHR 0x5C, CHR 0x27] @ ''s Lesson' when you are ready.'',
      msg_references = None\<rparr>"

definition handleSelectLesson :: "int \<Rightarrow> App \<Rightarrow> error + App" where
  "handleSelectLesson index s =
     (if index = currentLessonIndex s then Inr s
      else
        case at_index (lessons s) (currentLessonIndex s) of
          None \<Rightarrow> Inl (undefined_property ''status'')
        | Some c \<Rightarrow>
            let ls1 = (if status c = active
                       then (lessons s)[nat (currentLessonIndex s) := c\<lparr>status := locked\<rparr>]
                       else lessons s)
            in
            (case at_index ls1 index of
               None \<Rightarrow> Inl (undefined_property ''status'')
             | Some t \<Rightarrow>
                 let ls2 = (if status t \<noteq> passed then ls1[nat index := t\<lparr>status := active\<rparr>] else ls1)
                 in Inr (s\<lparr>lessons := ls2, currentLessonIndex := index, scenarioRef := None,
                          messages := [selected_message],
                          appStatus := IDLE, inputDisabled := True, isSidebarOpen := False\<rparr>)))"

section \<open>The service functions (services/geminiService.ts)\<close>

text \<open>
  A parsed JSON value. \<^verbatim>\<open>JSON.parse\<close> is a parameter \<open>JSON_parse\<close> of the service
  functions, returning the value or the \<^verbatim>\<open>SyntaxError\<close> it throws.
\<close>

datatype json =
    JNull | JBool bool | JNumber rat | JString string | JArray "json list"
  | JObject "(string \<times> json) list"

text \<open>
  The response schemas handed to the model (\<^verbatim>\<open>Type.INTEGER\<close>, \<^verbatim>\<open>Type.STRING\<close>,
  \<^verbatim>\<open>Type.ARRAY\<close> with its \<^verbatim>\<open>items\<close>, \<^verbatim>\<open>Type.OBJECT\<close> with its \<^verbatim>\<open>properties\<close> and
  \<^verbatim>\<open>required\<close>), and what it means for a value to be valid for one.
\<close>

datatype schema =
    INTEGER | STRING | ARRAY schema | OBJECT "(string \<times> schema) list" "string list"

definition evaluationSchema :: schema where
  "evaluationSchema =
     OBJECT
       [(''totalScore'', INTEGER),
        (''scores'', OBJECT [(''rules'', INTEGER), (''calculations'', INTEGER),
                             (''compliance'', INTEGER), (''alternatives'', INTEGER),
                             (''planning'', INTEGER), (''clarity'', INTEGER)] []),
        (''feedback'', OBJECT [(''good'', ARRAY STRING), (''corrections'', ARRAY STRING),
                               (''takeaways'', ARRAY STRING)] []),
        (''knowledgePoints'', ARRAY STRING),
        (''detailedExplanation'', STRING)]
       [''totalScore'', ''scores'', ''feedback'', ''knowledgePoints'', ''detailedExplanation'']"

fun valid :: "schema \<Rightarrow> json \<Rightarrow> bool" where
  "valid INTEGER v = (case v of JNumber x \<Rightarrow> x = of_int \<lfloor>x\<rfloor> | _ \<Rightarrow> False)"
| "valid STRING v = (case v of JString _ \<Rightarrow> True | _ \<Rightarrow> False)"
| "valid (ARRAY items) v = (case v of JArray vs \<Rightarrow> list_all (valid items) vs | _ \<Rightarrow> False)"
| "valid (OBJECT properties required) v =
     (case v of
        JObject members \<Rightarrow>
          list_all (\<lambda>k. map_of members k \<noteq> None) required \<and>
          list_all (\<lambda>(k, sch). case map_of members k of None \<Rightarrow> True | Some x \<Rightarrow> valid sch x)
            properties
      | _ \<Rightarrow> False)"

text \<open>
  The request sent through \<^verbatim>\<open>ai.models.generateContent\<close>: the prompt, given by the values
  interpolated into its fixed text. The call is a parameter \<open>generateContent\<close>, which
  throws or returns \<^verbatim>\<open>response.text\<close>, \<open>None\<close> when undefined. A service function returns
  its result together with the prompts it sent.
\<close>

datatype prompt =
    EvaluationPrompt string string string
  | MockExamPrompt int string

definition evaluateAnswer ::
  "(prompt \<Rightarrow> error + string option) \<Rightarrow> (string \<Rightarrow> error + json) \<Rightarrow>
   string \<Rightarrow> string \<Rightarrow> LessonProgress list \<Rightarrow> (error + json) \<times> prompt list" where
  "evaluateAnswer generateContent JSON_parse scen answer passedLs =
     (let passedTopics = (if length passedLs > 0 then join '', '' (map topic passedLs) else ''None'');
          p = EvaluationPrompt scen answer passedTopics
      in
      (case generateContent p of
         Inl e \<Rightarrow> Inl e
       | Inr responseText \<Rightarrow>
           (case responseText of
              None \<Rightarrow> Inl (Error ''Failed to evaluate answer: The AI returned an empty response.'')
            | Some t \<Rightarrow>
                if t = [] then Inl (Error ''Failed to evaluate answer: The AI returned an empty response.'')
                else JSON_parse (trim t)),
       [p]))"

definition questionCount :: "LessonProgress list \<Rightarrow> int" where
  "questionCount passedLs = max 5 (min 15 (int (length passedLs) div 2))"

definition generateMockExamQuestions ::
  "(prompt \<Rightarrow> error + string option) \<Rightarrow> (string \<Rightarrow> error + json) \<Rightarrow>
   LessonProgress list \<Rightarrow> (error + json) \<times> prompt list" where
  "generateMockExamQuestions generateContent JSON_parse passedLs =
     (let passedTopics = join ''\<newline>'' (map (\<lambda>l. ''- '' @ topic l @ '': '' @ description l) passedLs);
          p = MockExamPrompt (questionCount passedLs) passedTopics
      in
      (case generateContent p of
         Inl e \<Rightarrow> Inl e
       | Inr responseText \<Rightarrow>
           (case responseText of
              None \<Rightarrow> Inl (Error ''Failed to generate mock exam: The AI returned an empty response.'')
            | Some t \<Rightarrow>
                if t = [] then Inl (Error ''Failed to generate mock exam: The AI returned an empty response.'')
                else
                  (case JSON_parse (trim t) of
                     Inl e \<Rightarrow> Inl (Error ''Failed to generate mock exam: The AI returned an invalid JSON response.'')
                   | Inr parsed \<Rightarrow> Inr parsed)),
       [p]))"

section \<open>Terms of the specification and sample values\<close>

text \<open>\<open>clamp x lo hi\<close> as the specification uses it: \<open>x\<close> brought into the range from \<open>lo\<close> to \<open>hi\<close>.\<close>

definition clamp :: "int \<Rightarrow> int \<Rightarrow> int \<Rightarrow> int" where
  "clamp x lo hi = (if x < lo then lo else if hi < x then hi else x)"

text \<open>
  Question \<open>i\<close> of \<open>Q\<close> is answered correctly by the answers \<open>A\<close>: there is an answer
  at position \<open>i\<close> and it is the letter of the correct option.
\<close>

definition answered_correctly :: "MockQuestion list \<Rightarrow> string list \<Rightarrow> nat \<Rightarrow> bool" where
  "answered_correctly Q A i \<longleftrightarrow> i < length A \<and> A ! i = letter_text (correctAnswer (Q ! i))"

text \<open>
  A lesson, a scenario with a twist of it, and a service whose evaluator gives 92 to the
  answer \<open>good\<close> and 60 to any other, whose scenario generator returns the twist, and whose
  mock exam generator fails. \<open>failing_generator\<close> is the same service with a scenario
  generator that throws.
\<close>

definition filing_status :: "Status \<Rightarrow> int \<Rightarrow> LessonProgress" where
  "filing_status st tw =
     \<lparr>week = 1, day = 1, phase = ''Phase 1'', topic = ''Filing Status'',
      description = ''Choosing the filing status'', references = ''Pub 501'', part = ''Part 1'',
      sequence = ''1'', status = st, score = 0, twistsCompleted = tw\<rparr>"

definition two_lessons :: "Lesson list" where
  "two_lessons =
     [\<lparr>week = 1, day = 1, phase = ''Phase 1'', topic = ''Filing Status'',
       description = ''Choosing the filing status'', references = ''Pub 501'', part = ''Part 1'',
       sequence = ''1''\<rparr>,
      \<lparr>week = 1, day = 2, phase = ''Phase 1'', topic = ''Dependents'',
       description = ''Qualifying child and relative'', references = ''Pub 501'', part = ''Part 1'',
       sequence = ''2''\<rparr>]"

definition jane :: Scenario where
  "jane = \<lparr>scenario = ''Jane is single.'', question = ''What filing status applies?''\<rparr>"

definition jane_twist :: Scenario where
  "jane_twist =
     \<lparr>scenario = ''Jane married in December.'', question = ''What filing status applies now?''\<rparr>"

definition sample_evaluation :: "int \<Rightarrow> EvaluationResult" where
  "sample_evaluation n =
     \<lparr>totalScore = Some n, scores = None, feedback = None,
      knowledgePoints = Some (if n < 90 then [''pt1'', ''pt2''] else []),
      detailedExplanation = Some (if n < 90 then ''Model answer.'' else [])\<rparr>"

definition sample_service :: geminiService where
  "sample_service =
     \<lparr>svc_generateScenario = (\<lambda>l ps prev isTwist. Inr jane_twist),
      svc_evaluateAnswer =
        (\<lambda>scen answer ps. Inr (sample_evaluation (if answer = ''good'' then 92 else 60))),
      svc_generateMockExamQuestions = (\<lambda>ps. Inl (Error ''offline''))\<rparr>"

definition failing_generator :: geminiService where
  "failing_generator =
     sample_service\<lparr>svc_generateScenario :=
       (\<lambda>l ps prev isTwist.
          Inl (Error ''Failed to generate scenario: The AI returned an invalid JSON response.''))\<rparr>"

definition sample_state :: "int \<Rightarrow> App" where
  "sample_state tw =
     \<lparr>lessons = [filing_status active tw], currentLessonIndex = 0, messages = [],
      appStatus = AWAITING_ANSWER, inputDisabled = False, mockExam = None, isSidebarOpen = False,
      scenarioRef = Some jane\<rparr>"

text \<open>A state with \<open>n\<close> passed lessons and no session in progress.\<close>

definition exam_state :: "nat \<Rightarrow> App" where
  "exam_state n =
     (sample_state 0)\<lparr>lessons := replicate n (filing_status passed 2), appStatus := IDLE\<rparr>"

text \<open>
  A model response whose text is an empty JSON object between blanks, and \<^verbatim>\<open>JSON.parse\<close>
  restricted to the one text it is applied to in the examples.
\<close>

definition empty_object_response :: "prompt \<Rightarrow> error + string option" where
  "empty_object_response p = Inr (Some '' {} '')"

definition sample_JSON_parse :: "string \<Rightarrow> error + json" where
  "sample_JSON_parse t =
     (if t = ''{}'' then Inr (JObject []) else Inl (Error ''SyntaxError: Unexpected token''))"

text \<open>A mock exam of three questions in progress, two answers given, the third awaited.\<close>

definition sample_question :: "string \<Rightarrow> Letter \<Rightarrow> MockQuestion" where
  "sample_question t c =
     \<lparr>mq_question = ''Which one?'',
      options = \<lparr>option_A = ''first'', option_B = ''second'', option_C = ''third'',
                 option_D = ''fourth''\<rparr>,
      correctAnswer = c, mq_topic = t\<rparr>"

definition sample_exam :: MockExam where
  "sample_exam =
     \<lparr>questions = [sample_question ''Filing Status'' Letter_A,
                   sample_question ''Dependents'' Letter_B,
                   sample_question ''Credits'' Letter_C],
      currentQuestionIndex = 2, answers = [''A'', ''D'']\<rparr>"

definition sample_exam_state :: App where
  "sample_exam_state =
     (exam_state 5)\<lparr>appStatus := MOCK_EXAM_IN_PROGRESS, mockExam := Some sample_exam\<rparr>"

text \<open>The same exam with all three answers given.\<close>

definition finished_exam :: MockExam where
  "finished_exam = sample_exam\<lparr>currentQuestionIndex := 3, answers := [''A'', ''D'', ''C'']\<rparr>"

section \<open>Properties\<close>

subsection \<open>Auxiliary facts\<close>

lemma addMessage_fields:
  "lessons (addMessage w t s) = lessons s"
  "currentLessonIndex (addMessage w t s) = currentLessonIndex s"
  "appStatus (addMessage w t s) = appStatus s"
  "inputDisabled (addMessage w t s) = inputDisabled s"
  "mockExam (addMessage w t s) = mockExam s"
  "isSidebarOpen (addMessage w t s) = isSidebarOpen s"
  "scenarioRef (addMessage w t s) = scenarioRef s"
  "messages (addMessage w t s) = messages s @ [\<lparr>sender = w, msg_text = t, msg_references = None\<rparr>]"
  by (simp_all add: addMessage_def)

lemmas sample_defs =
  sample_state_def sample_service_def failing_generator_def sample_evaluation_def
  filing_status_def passedLessons_def nullish_def at_index_def

lemma trim_blank_object: "trim '' {} '' = ''{}''"
  by (simp add: trim_def is_space_def)

lemma upper_case_e: "toUpperCase (trim ''e'') = ''E''"
  by code_simp

subsection \<open>Submitting an answer to a scenario\<close>

text \<open>
  C1. An answer is submitted outside a mock exam, a scenario is stored, the evaluator
  returns an evaluation with a total score of at least 90, and the current lesson has
  fewer than 2 twists completed. Then \<open>handleSendMessage\<close> adds one to \<open>twistsCompleted\<close>
  of the current lesson and changes no other lesson and no status (so no status becomes
  \<open>passed\<close> and an active lesson stays active); after the evaluation request it issues
  exactly one request, for a scenario, with the text of the stored scenario as the previous
  scenario and the twist flag true; when that request returns a scenario, it is the stored
  scenario afterwards; and the state at the end is \<open>AWAITING_ANSWER\<close>.
\<close>

theorem pass_with_twists_left_issues_twist:
  assumes "appStatus s \<noteq> MOCK_EXAM_IN_PROGRESS"
      and "scenarioRef s = Some cur"
      and "svc_evaluateAnswer svc (scenario cur) userMessage (passedLessons s) = Inr evaluation"
      and "nullish (totalScore evaluation) 0 \<ge> 90"
      and "at_index (lessons s) (currentLessonIndex s) = Some lesson"
      and "twistsCompleted lesson < 2"
  shows "case handleSendMessage svc userMessage s of (s', reqs) \<Rightarrow>
           lessons s' = (lessons s)[nat (currentLessonIndex s) :=
                           lesson\<lparr>twistsCompleted := twistsCompleted lesson + 1\<rparr>]
         \<and> map status (lessons s') = map status (lessons s)
         \<and> reqs = [EvaluateAnswer (scenario cur) userMessage (passedLessons s),
                   GenerateScenario (as_Lesson lesson) (passedLessons s) (Some (scenario cur)) True]
         \<and> (\<forall>new. svc_generateScenario svc (as_Lesson lesson) (passedLessons s)
                     (Some (scenario cur)) True = Inr new \<longrightarrow> scenarioRef s' = Some new)
         \<and> appStatus s' = AWAITING_ANSWER"
  using assms
  apply (simp add: handleSendMessage_def after_evaluation_def Let_def addMessage_fields
      evaluation_catch_def passedLessons_def split: sum.splits)
  apply (auto simp: at_index_def map_update list_update_same_conv split: if_splits)
  done

theorem pass_with_twists_left_issues_twist_witness:
  "map twistsCompleted (lessons (fst (handleSendMessage sample_service ''good'' (sample_state 1)))) = [2]
   \<and> map status (lessons (fst (handleSendMessage sample_service ''good'' (sample_state 1)))) = [active]
   \<and> snd (handleSendMessage sample_service ''good'' (sample_state 1)) =
       [EvaluateAnswer ''Jane is single.'' ''good'' [],
        GenerateScenario (as_Lesson (filing_status active 1)) [] (Some ''Jane is single.'') True]
   \<and> scenarioRef (fst (handleSendMessage sample_service ''good'' (sample_state 1))) = Some jane_twist
   \<and> appStatus (fst (handleSendMessage sample_service ''good'' (sample_state 1))) = AWAITING_ANSWER"
  using pass_with_twists_left_issues_twist
          [of "sample_state 1" jane sample_service "''good''" "sample_evaluation 92"
              "filing_status active 1"]
  by (simp add: sample_defs jane_def split: prod.splits)

text \<open>
  C2. Under the same conditions, but with \<open>twistsCompleted\<close> of the current lesson equal
  to 2, \<open>handleSendMessage\<close> sets the status of the current lesson to \<open>passed\<close> and its score
  to the total score, leaves every \<open>twistsCompleted\<close> as it was, issues no request after the
  evaluation request, and ends in state \<open>TOPIC_PASSED\<close>.
\<close>

theorem pass_after_two_twists_marks_passed:
  assumes "appStatus s \<noteq> MOCK_EXAM_IN_PROGRESS"
      and "scenarioRef s = Some cur"
      and "svc_evaluateAnswer svc (scenario cur) userMessage (passedLessons s) = Inr evaluation"
      and "nullish (totalScore evaluation) 0 \<ge> 90"
      and "at_index (lessons s) (currentLessonIndex s) = Some lesson"
      and "twistsCompleted lesson = 2"
  shows "case handleSendMessage svc userMessage s of (s', reqs) \<Rightarrow>
           lessons s' = (lessons s)[nat (currentLessonIndex s) :=
                           lesson\<lparr>status := passed, score := nullish (totalScore evaluation) 0\<rparr>]
         \<and> at_index (lessons s') (currentLessonIndex s) =
             Some (lesson\<lparr>status := passed, score := nullish (totalScore evaluation) 0\<rparr>)
         \<and> map twistsCompleted (lessons s') = map twistsCompleted (lessons s)
         \<and> reqs = [EvaluateAnswer (scenario cur) userMessage (passedLessons s)]
         \<and> appStatus s' = TOPIC_PASSED"
  using assms
  apply (simp add: handleSendMessage_def after_evaluation_def Let_def addMessage_fields
      evaluation_catch_def passedLessons_def split: sum.splits)
  apply (auto simp: at_index_def map_update list_update_same_conv split: if_splits)
  done

theorem pass_after_two_twists_marks_passed_witness:
  "map status (lessons (fst (handleSendMessage sample_service ''good'' (sample_state 2)))) = [passed]
   \<and> map score (lessons (fst (handleSendMessage sample_service ''good'' (sample_state 2)))) = [92]
   \<and> map twistsCompleted (lessons (fst (handleSendMessage sample_service ''good'' (sample_state 2)))) = [2]
   \<and> snd (handleSendMessage sample_service ''good'' (sample_state 2)) =
       [EvaluateAnswer ''Jane is single.'' ''good'' []]
   \<and> appStatus (fst (handleSendMessage sample_service ''good'' (sample_state 2))) = TOPIC_PASSED"
  using pass_after_two_twists_marks_passed
          [of "sample_state 2" jane sample_service "''good''" "sample_evaluation 92"
              "filing_status active 2"]
  by (simp add: sample_defs jane_def split: prod.splits)

text \<open>
  C3, as the code has it. When the evaluator returns a total score below 90, the messages
  appended are the learner's answer, the feedback, the score notice, the knowledge points
  when there are any, the detailed explanation when it is not empty, and last the retry
  message, whose scenario and question are those of the scenario stored when the answer was
  submitted, the one the answer was evaluated against. The stored scenario is kept and the
  state at the end is \<open>AWAITING_ANSWER\<close>. Since a twist replaces the stored scenario (C1),
  the text shown again is the original scenario only as long as no twist has been issued,
  and the latest twist afterwards.
\<close>

theorem retry_shows_stored_scenario:
  assumes "appStatus s \<noteq> MOCK_EXAM_IN_PROGRESS"
      and "scenarioRef s = Some cur"
      and "svc_evaluateAnswer svc (scenario cur) userMessage (passedLessons s) = Inr evaluation"
      and "nullish (totalScore evaluation) 0 < 90"
  shows "case handleSendMessage svc userMessage s of (s', reqs) \<Rightarrow>
           messages s' =
             messages s
             @ [\<lparr>sender = user, msg_text = userMessage, msg_references = None\<rparr>,
                \<lparr>sender = ai, msg_text = feedback_text evaluation, msg_references = None\<rparr>,
                \<lparr>sender = system,
                 msg_text = ''Your score is '' @ show_int (nullish (totalScore evaluation) 0)
                   @ ''%. You need 90% to pass. Review the feedback and the model answer below. Let's try this topic again.'',
                 msg_references = None\<rparr>]
             @ (case knowledgePoints evaluation of
                  None \<Rightarrow> []
                | Some kps \<Rightarrow>
                    if kps = [] then []
                    else [\<lparr>sender = ai,
                           msg_text = ''**Key Knowledge Points to Review:**\<newline>'' @ bullets kps,
                           msg_references = None\<rparr>])
             @ (case detailedExplanation evaluation of
                  None \<Rightarrow> []
                | Some expl \<Rightarrow>
                    if expl = [] then []
                    else [\<lparr>sender = ai,
                           msg_text = ''**Model Answer & Explanation:**\<newline>'' @ expl,
                           msg_references = None\<rparr>])
             @ [\<lparr>sender = ai,
                 msg_text = ''Let's try that again. Here is the original scenario:\<newline>\<newline>**Scenario:**\<newline>''
                   @ scenario cur @ ''\<newline>\<newline>**Question:**\<newline>'' @ question cur,
                 msg_references = None\<rparr>]
         \<and> scenarioRef s' = Some cur
         \<and> appStatus s' = AWAITING_ANSWER"
  using assms
  by (simp add: handleSendMessage_def after_evaluation_def Let_def addMessage_fields nullish_def
      retry_text_def split: option.splits)

theorem retry_shows_stored_scenario_witness:
  "map sender (messages (fst (handleSendMessage sample_service ''weak'' (sample_state 1)))) =
     [user, ai, system, ai, ai, ai]
   \<and> map msg_text (drop 3 (messages (fst (handleSendMessage sample_service ''weak'' (sample_state 1))))) =
       [''**Key Knowledge Points to Review:**\<newline>- pt1\<newline>- pt2'',
        ''**Model Answer & Explanation:**\<newline>Model answer.'',
        ''Let's try that again. Here is the original scenario:\<newline>\<newline>**Scenario:**\<newline>Jane is single.\<newline>\<newline>**Question:**\<newline>What filing status applies?'']
   \<and> scenarioRef (fst (handleSendMessage sample_service ''weak'' (sample_state 1))) = Some jane
   \<and> appStatus (fst (handleSendMessage sample_service ''weak'' (sample_state 1))) = AWAITING_ANSWER"
  using retry_shows_stored_scenario
          [of "sample_state 1" jane sample_service "''weak''" "sample_evaluation 60"]
  by (simp add: sample_defs jane_def bullets_def split: prod.splits)

text \<open>
  C3, as the specification states it, fails: the first answer earns 92, a twist replaces the
  stored scenario, the second answer earns 60, and the scenario shown again is the twist,
  not the original scenario.
\<close>

theorem retry_after_twist_shows_twist:
  "scenarioRef (sample_state 0) = Some jane
   \<and> scenarioRef (fst (handleSendMessage sample_service ''good'' (sample_state 0))) = Some jane_twist
   \<and> msg_text (last (messages (fst (handleSendMessage sample_service ''weak''
         (fst (handleSendMessage sample_service ''good'' (sample_state 0))))))) = retry_text jane_twist
   \<and> retry_text jane_twist \<noteq> retry_text jane"
  by (simp add: handleSendMessage_def after_evaluation_def Let_def addMessage_fields sample_defs
      jane_def jane_twist_def retry_text_def)

text \<open>
  C4. When the evaluator returns a total score below 90, the lesson collection after
  \<open>handleSendMessage\<close> is the collection before it: no field of any lesson changes.
\<close>

theorem failing_score_keeps_lessons:
  assumes "appStatus s \<noteq> MOCK_EXAM_IN_PROGRESS"
      and "scenarioRef s = Some cur"
      and "svc_evaluateAnswer svc (scenario cur) userMessage (passedLessons s) = Inr evaluation"
      and "nullish (totalScore evaluation) 0 < 90"
  shows "lessons (fst (handleSendMessage svc userMessage s)) = lessons s"
  using assms
  by (simp add: handleSendMessage_def after_evaluation_def Let_def addMessage_fields
      split: option.splits)

theorem failing_score_keeps_lessons_witness:
  "lessons (fst (handleSendMessage sample_service ''weak'' (sample_state 1))) =
     [filing_status active 1]"
  using failing_score_keeps_lessons
          [of "sample_state 1" jane sample_service "''weak''" "sample_evaluation 60"]
  by (simp add: sample_defs jane_def)

text \<open>
  C10. Under the conditions of C1, when the request for the twist scenario throws, the last
  message is the system message of the \<open>catch\<close> block with the error's message, the state
  at the end is \<open>AWAITING_ANSWER\<close>, the stored scenario is the one stored before, and the
  current lesson keeps the incremented \<open>twistsCompleted\<close>.
\<close>

theorem failed_twist_keeps_increment:
  assumes "appStatus s \<noteq> MOCK_EXAM_IN_PROGRESS"
      and "scenarioRef s = Some cur"
      and "svc_evaluateAnswer svc (scenario cur) userMessage (passedLessons s) = Inr evaluation"
      and "nullish (totalScore evaluation) 0 \<ge> 90"
      and "at_index (lessons s) (currentLessonIndex s) = Some lesson"
      and "twistsCompleted lesson < 2"
      and "svc_generateScenario svc (as_Lesson lesson) (passedLessons s) (Some (scenario cur)) True
           = Inl e"
  shows "case handleSendMessage svc userMessage s of (s', reqs) \<Rightarrow>
           last (messages s') =
             \<lparr>sender = system,
              msg_text = ''Sorry, I encountered an error evaluating your answer: '' @ message e
                         @ ''. Please try again.'',
              msg_references = None\<rparr>
         \<and> appStatus s' = AWAITING_ANSWER
         \<and> scenarioRef s' = Some cur
         \<and> lessons s' = (lessons s)[nat (currentLessonIndex s) :=
                             lesson\<lparr>twistsCompleted := twistsCompleted lesson + 1\<rparr>]
         \<and> at_index (lessons s') (currentLessonIndex s') =
             Some (lesson\<lparr>twistsCompleted := twistsCompleted lesson + 1\<rparr>)"
  using assms
  apply (simp add: handleSendMessage_def after_evaluation_def Let_def addMessage_fields
      evaluation_catch_def passedLessons_def split: sum.splits)
  apply (auto simp: at_index_def map_update list_update_same_conv split: if_splits)
  done

theorem failed_twist_keeps_increment_witness:
  "msg_text (last (messages (fst (handleSendMessage failing_generator ''good'' (sample_state 0))))) =
     ''Sorry, I encountered an error evaluating your answer: Failed to generate scenario: The AI returned an invalid JSON response.. Please try again.''
   \<and> appStatus (fst (handleSendMessage failing_generator ''good'' (sample_state 0))) = AWAITING_ANSWER
   \<and> scenarioRef (fst (handleSendMessage failing_generator ''good'' (sample_state 0))) = Some jane
   \<and> map twistsCompleted (lessons (sample_state 0)) = [0]
   \<and> map twistsCompleted (lessons (fst (handleSendMessage failing_generator ''good'' (sample_state 0)))) = [1]"
  using failed_twist_keeps_increment
          [of "sample_state 0" jane failing_generator "''good''" "sample_evaluation 92"
              "filing_status active 0"
              "Error ''Failed to generate scenario: The AI returned an invalid JSON response.''"]
  by (simp add: sample_defs jane_def split: prod.splits if_splits)

subsection \<open>The evaluator's response\<close>

text \<open>
  C5, as the code has it. Let the model return a response with text \<open>responseText\<close>.
  When the text is undefined or empty, \<open>evaluateAnswer\<close> throws the error for an empty
  response. When the text is not empty, the result of \<open>evaluateAnswer\<close> is the result of
  \<^verbatim>\<open>JSON.parse\<close> on the trimmed text: the \<^verbatim>\<open>SyntaxError\<close> when the text does not parse, and
  otherwise the parsed value as it is, with no check against the schema.
\<close>

theorem evaluateAnswer_returns_parsed_value:
  assumes "\<forall>p. generateContent p = Inr responseText"
  shows "(responseText = None \<or> responseText = Some [] \<longrightarrow>
            fst (evaluateAnswer generateContent JSON_parse scen answer passedLs) =
              Inl (Error ''Failed to evaluate answer: The AI returned an empty response.''))
       \<and> (\<forall>t. responseText = Some t \<and> t \<noteq> [] \<longrightarrow>
            fst (evaluateAnswer generateContent JSON_parse scen answer passedLs) = JSON_parse (trim t))"
  using assms by (auto simp: evaluateAnswer_def Let_def)

theorem evaluateAnswer_returns_parsed_value_witness:
  "fst (evaluateAnswer empty_object_response sample_JSON_parse ''Jane is single.'' ''Single'' []) =
     sample_JSON_parse ''{}''"
  using evaluateAnswer_returns_parsed_value
          [of empty_object_response "Some '' {} ''" sample_JSON_parse "''Jane is single.''"
              "''Single''" "[]"]
  by (simp add: empty_object_response_def trim_blank_object)

text \<open>
  C5, as the specification states it, fails: the response \<^verbatim>\<open>{}\<close> parses, has none of the
  required fields of the evaluation schema, and is returned as a success.
\<close>

theorem evaluateAnswer_accepts_empty_object:
  "fst (evaluateAnswer empty_object_response sample_JSON_parse ''Jane is single.'' ''Single'' []) =
     Inr (JObject [])
   \<and> \<not> valid evaluationSchema (JObject [])"
  by (simp add: evaluateAnswer_def empty_object_response_def sample_JSON_parse_def
      trim_blank_object evaluationSchema_def)

subsection \<open>Mock exam\<close>

text \<open>
  C7. During a mock exam, a submitted text whose normal form (trimmed, then upper case) is
  none of \<open>A\<close>, \<open>B\<close>, \<open>C\<close>, \<open>D\<close> is rejected: \<open>handleSendMessage\<close> appends the system message
  about the invalid answer and changes nothing else, so the cursor, the answers and the
  state \<open>MOCK_EXAM_IN_PROGRESS\<close> are as before, and no request is issued.
\<close>

theorem invalid_mock_answer_rejected:
  assumes "appStatus s = MOCK_EXAM_IN_PROGRESS"
      and "mockExam s = Some ex"
      and "toUpperCase (trim answer) \<notin> {''A'', ''B'', ''C'', ''D''}"
  shows "handleSendMessage svc answer s =
           (s\<lparr>messages := messages s @
                 [\<lparr>sender = system, msg_text = ''Invalid answer. Please enter A, B, C, or D.'',
                   msg_references = None\<rparr>]\<rparr>, [])"
  using assms
  by (simp add: handleSendMessage_def handleMockAnswer_def addMessage_def)

theorem invalid_mock_answer_rejected_witness:
  "toUpperCase (trim ''e'') = ''E''
   \<and> handleSendMessage sample_service ''e'' sample_exam_state =
       (sample_exam_state\<lparr>messages :=
          [\<lparr>sender = system, msg_text = ''Invalid answer. Please enter A, B, C, or D.'',
            msg_references = None\<rparr>]\<rparr>, [])
   \<and> mockExam (fst (handleSendMessage sample_service ''e'' sample_exam_state)) = Some sample_exam
   \<and> appStatus (fst (handleSendMessage sample_service ''e'' sample_exam_state)) = MOCK_EXAM_IN_PROGRESS"
  using invalid_mock_answer_rejected [of sample_exam_state sample_exam "''e''" sample_service]
  by (simp add: sample_exam_state_def exam_state_def sample_state_def upper_case_e)

subsubsection \<open>The grading loop\<close>

lemma at_index_nat: "at_index xs (int i) = (if i < length xs then Some (xs ! i) else None)"
  by (simp add: at_index_def)

lemma upt_0_Suc_shift: "[0..<Suc n] = 0 # map Suc [0..<n]"
  by (simp add: upt_conv_Cons map_Suc_upt del: upt_Suc)

lemma grade_fst:
  "fst (grade as qs i (sc, res)) =
     sc + length (filter (\<lambda>k. at_index as (int (i + k)) = Some (letter_text (correctAnswer (qs ! k))))
                    [0..<length qs])"
proof (induction qs arbitrary: i sc res)
  case Nil
  then show ?case by simp
next
  case (Cons q qs)
  show ?case
    by (simp add: Let_def Cons.IH upt_0_Suc_shift filter_map o_def ac_simps del: upt_Suc)
qed

lemma grade_snd:
  "snd (grade as qs i (sc, res)) =
     res @ map (\<lambda>k. result_line (i + k) (qs ! k) (at_index as (int (i + k))))
             (filter (\<lambda>k. at_index as (int (i + k)) \<noteq> Some (letter_text (correctAnswer (qs ! k))))
                [0..<length qs])"
proof (induction qs arbitrary: i sc res)
  case Nil
  then show ?case by simp
next
  case (Cons q qs)
  show ?case
    by (simp add: Let_def Cons.IH upt_0_Suc_shift filter_map o_def ac_simps del: upt_Suc)
qed

lemma at_index_correct:
  "(at_index A (int i) = Some (letter_text (correctAnswer (Q ! i)))) = answered_correctly Q A i"
  by (auto simp: at_index_nat answered_correctly_def)

lemma grade_from_start:
  "grade A Q 0 (0, []) =
     (length (filter (answered_correctly Q A) [0..<length Q]),
      map (\<lambda>i. result_line i (Q ! i) (at_index A (int i)))
        (filter (\<lambda>i. \<not> answered_correctly Q A i) [0..<length Q]))"
  using grade_fst [of A Q 0 0 "[]"] grade_snd [of A Q 0 0 "[]"]
  by (simp add: at_index_correct prod_eq_iff)

lemma shown_answer_at:
  "shown_answer (at_index A (int i)) = (if i < length A \<and> A ! i \<noteq> [] then A ! i else ''No Answer'')"
  by (simp add: shown_answer_def at_index_nat)

lemma percentage_eq:
  "0 < t \<Longrightarrow> percentage sc t =
     show_int (toFixed1_tenths (js_mul (js_div (of_nat sc) (of_nat t)) 100) div 10) @ ''.''
     @ show_int (toFixed1_tenths (js_mul (js_div (of_nat sc) (of_nat t)) 100) mod 10)"
  by (simp add: percentage_def toFixed1_def Let_def)


subsubsection \<open>Binary64 rounding\<close>

lemma round_half_even_error: "\<bar>of_int (round_half_even x) - x\<bar> \<le> 1 / 2"
proof -
  have "of_int \<lfloor>x\<rfloor> \<le> x" "x < of_int \<lfloor>x\<rfloor> + 1"
    by linarith+
  then show ?thesis
    by (auto simp: round_half_even_def Let_def)
qed

lemma bitlen_powi_bounds:
  assumes "0 < a"
  shows "2 powi (bitlen a - 1) \<le> (of_int a :: rat)" and "(of_int a :: rat) < 2 powi (bitlen a)"
proof -
  from assms have pos: "1 \<le> bitlen a"
    using bitlen_eq_zero_iff [of a] bitlen_nonneg [of a] by linarith
  from bitlen_bounds [OF assms]
  have "(2::int) ^ nat (bitlen a - 1) \<le> a" and "a < (2::int) ^ nat (bitlen a)"
    by simp_all
  then have "(of_int ((2::int) ^ nat (bitlen a - 1)) :: rat) \<le> of_int a"
    and "(of_int a :: rat) < of_int ((2::int) ^ nat (bitlen a))"
    by (simp_all only: of_int_le_iff of_int_less_iff)
  with pos show "2 powi (bitlen a - 1) \<le> (of_int a :: rat)"
    and "(of_int a :: rat) < 2 powi (bitlen a)"
    by (simp_all add: power_int_def)
qed

lemma ilog2_bounds:
  assumes "0 < q"
  shows "2 powi (ilog2 q) \<le> q" and "q < 2 powi (ilog2 q + 1)"
proof -
  obtain a b where ab: "quotient_of q = (a, b)"
    by (cases "quotient_of q")
  then have b: "0 < b" and q: "q = of_int a / of_int b"
    by (simp_all add: quotient_of_denom_pos quotient_of_div)
  from assms q b have a: "0 < a"
    by (simp add: zero_less_divide_iff)
  define la lb where "la = bitlen a" and "lb = bitlen b"
  note la = bitlen_powi_bounds [OF a, folded la_def]
  note lb = bitlen_powi_bounds [OF b, folded lb_def]
  have pa: "(0::rat) < of_int a" and pb: "(0::rat) < of_int b"
    using a b by simp_all
  have "(2::rat) powi (la - lb - 1) = 2 powi (la - 1) / 2 powi lb"
    using power_int_diff [of "2::rat" "la - 1" lb] by (simp add: algebra_simps)
  also have "\<dots> \<le> of_int a / of_int b"
    using la(1) lb(2) pa pb by (intro frac_le) simp_all
  finally have lo: "2 powi (la - lb - 1) \<le> q"
    by (simp add: q)
  have "of_int a / of_int b < (2::rat) powi la / 2 powi (lb - 1)"
    using la(2) lb(1) pa pb by (intro frac_less) simp_all
  also have "\<dots> = 2 powi (la - lb + 1)"
    using power_int_diff [of "2::rat" la "lb - 1"] by (simp add: algebra_simps)
  finally have hi: "q < 2 powi (la - lb + 1)"
    by (simp add: q)
  have eq: "ilog2 q = (if 2 powi (la - lb) \<le> q then la - lb else la - lb - 1)"
    by (simp add: ilog2_def ab la_def lb_def)
  show "2 powi (ilog2 q) \<le> q"
    using lo by (simp add: eq)
  show "q < 2 powi (ilog2 q + 1)"
    using hi by (auto simp: eq)
qed

lemma to_double_error:
  assumes "0 < q"
  shows "\<bar>to_double q - q\<bar> \<le> q / 2 ^ 53"
proof -
  define e where "e = ilog2 q - 52"
  define m where "m = q * 2 powi (- e)"
  have p: "(0::rat) < 2 powi e"
    by simp
  have td: "to_double q = of_int (round_half_even m) * 2 powi e"
    using assms by (simp add: to_double_def e_def m_def Let_def)
  have qm: "q = m * 2 powi e"
    by (simp add: m_def power_int_minus)
  have "to_double q - q = (of_int (round_half_even m) - m) * 2 powi e"
    by (simp only: td left_diff_distrib qm [symmetric])
  then have "\<bar>to_double q - q\<bar> = \<bar>of_int (round_half_even m) - m\<bar> * 2 powi e"
    using p by (simp add: abs_mult)
  also have "\<dots> \<le> (1 / 2) * 2 powi e"
    using round_half_even_error [of m] p by (intro mult_right_mono) simp_all
  also have "\<dots> = 2 powi (e + 52) / 2 ^ 53"
    by (simp add: power_int_add)
  also have "\<dots> \<le> q / 2 ^ 53"
    using ilog2_bounds(1) [OF assms] by (simp add: e_def divide_right_mono)
  finally show ?thesis .
qed

lemma to_double_zero: "to_double 0 = 0"
  by (simp add: to_double_def)

lemma percentage_tenths_nearest:
  fixes s t :: nat
  assumes t: "0 < t" "t < 2 ^ 32" and st: "s \<le> t"
  shows "\<bar>of_int (toFixed1_tenths (js_mul (js_div (of_nat s) (of_nat t)) 100)) / 10
          - 100 * of_nat s / of_nat t\<bar> \<le> (1 / 20 :: rat)"
proof (cases "s = 0")
  case True
  have "\<lfloor>1 / 2 :: rat\<rfloor> = 0"
    by (simp add: floor_eq_iff)
  with True show ?thesis
    by (simp add: js_div_def js_mul_def to_double_zero toFixed1_tenths_def)
next
  case False
  define T S :: rat where "T = of_nat t" and "S = of_nat s"
  define v where "v = S / T"
  define x1 where "x1 = to_double v"
  define x2 where "x2 = to_double (x1 * 100)"
  define n where "n = toFixed1_tenths x2"
  have "(of_nat t :: rat) < of_nat (2 ^ 32)"
    using t(2) by (simp only: of_nat_less_iff)
  then have "T < 2 ^ 32"
    by (simp only: T_def of_nat_power of_nat_numeral)
  then have T: "0 < T" "T \<le> 2 ^ 32"
    using t(1) by (simp_all add: T_def)
  have S: "0 < S" "S \<le> T"
    using False st by (simp_all add: S_def T_def)
  have v: "0 < v" "v \<le> 1"
    using T S by (simp_all add: v_def)
  have "\<bar>x1 - v\<bar> \<le> v / 2 ^ 53"
    unfolding x1_def by (rule to_double_error [OF v(1)])
  then have b1: "\<bar>x1 - v\<bar> * 9007199254740992 \<le> v"
    by simp
  from b1 v have "0 < x1"
    by (auto simp: abs_if algebra_simps split: if_splits)
  moreover from b1 v have "x1 \<le> 2"
    by (auto simp: abs_if algebra_simps split: if_splits)
  ultimately have x1: "0 < x1" "x1 \<le> 2" .
  from b1 v have e1: "\<bar>x1 - v\<bar> * 9007199254740992 \<le> 1"
    by linarith
  have "\<bar>x2 - x1 * 100\<bar> \<le> x1 * 100 / 2 ^ 53"
    unfolding x2_def using x1(1) by (intro to_double_error) simp
  then have b2: "\<bar>x2 - x1 * 100\<bar> * 9007199254740992 \<le> x1 * 100"
    by simp
  define d where "d = x2 * 10 - 1000 * v"
  from e1 b2 x1 have "\<bar>d\<bar> * 9007199254740992 \<le> 3000"
    unfolding d_def by (auto simp: abs_if algebra_simps split: if_splits)
  then have d: "\<bar>d\<bar> \<le> 3000 / 2 ^ 53"
    by simp
  have "\<bar>d * T\<bar> = \<bar>d\<bar> * T"
    using T by (simp add: abs_mult)
  also have "\<dots> \<le> (3000 / 2 ^ 53) * 2 ^ 32"
    using d T by (intro mult_mono) simp_all
  finally have dT: "\<bar>d * T\<bar> < 1 / 2"
    by simp
  have n: "of_int n \<le> x2 * 10 + 1 / 2" "x2 * 10 + 1 / 2 < of_int n + 1"
    using floor_correct [of "x2 * 10 + 1 / 2"] by (simp_all add: n_def toFixed1_tenths_def)
  define k :: int where "k = n * int t - 1000 * int s"
  have vT: "v * T = S"
    using T by (simp add: v_def)
  have K: "of_int k = (of_int n - 1000 * v) * T"
    by (simp add: k_def left_diff_distrib vT mult.assoc) (simp add: T_def S_def)
  have "(of_int n - 1000 * v) * T \<le> (d + 1 / 2) * T"
    using n(1) T by (intro mult_right_mono) (simp_all add: d_def)
  then have up: "2 * of_int k < T + 1"
    using dT by (simp add: K distrib_right abs_less_iff)
  have "(d - 1 / 2) * T < (of_int n - 1000 * v) * T"
    using n(2) T by (intro mult_strict_right_mono) (simp_all add: d_def)
  then have lo: "- T - 1 < 2 * of_int k"
    using dT by (simp add: K left_diff_distrib abs_less_iff)
  have "2 * k < int t + 1" "- int t - 1 < 2 * k"
    using up lo unfolding T_def
    by (simp_all flip: of_int_less_iff [where 'a = rat])
  then have "\<bar>2 * k\<bar> \<le> int t"
    by linarith
  then have "(of_int \<bar>2 * k\<bar> :: rat) \<le> of_int (int t)"
    by (simp only: of_int_le_iff)
  then have "\<bar>2 * (of_int k :: rat)\<bar> \<le> T"
    by (simp add: T_def)
  then have "\<bar>of_int n - 1000 * v\<bar> * T \<le> (1 / 2) * T"
    using T by (simp add: K abs_mult)
  then have "\<bar>of_int n - 1000 * v\<bar> \<le> 1 / 2"
    using T by (simp only: mult_le_cancel_right_pos)
  then have "\<bar>of_int n / 10 - 100 * v\<bar> \<le> 1 / 20"
    by (auto simp: abs_if algebra_simps split: if_splits)
  then show ?thesis
    by (simp add: n_def x2_def x1_def v_def S_def T_def js_div_def js_mul_def)
qed

subsubsection \<open>Evaluation of the sample exam\<close>

lemma finished_exam_graded:
  "length (filter (answered_correctly (questions finished_exam) (answers finished_exam))
             [0..<length (questions finished_exam)]) = 2"
  "filter (\<lambda>i. \<not> answered_correctly (questions finished_exam) (answers finished_exam) i)
     [0..<length (questions finished_exam)] = [1]"
  by code_simp+

lemma two_of_three_tenths: "toFixed1_tenths (js_mul (js_div 2 3) 100) = 667"
  by code_simp

lemma finished_exam_summary:
  "summaryMessage finished_exam =
     ''**Mock Exam Completed!**\<newline>\<newline>- **Score:** 2 out of 3 (66.7%)\<newline>\<newline>**Review your incorrect answers:**\<newline>\<newline>**Question 2 (Topic: Dependents)**\<newline>- Your Answer: D\<newline>- Correct Answer: B: second''"
  by code_simp


text \<open>
  C6. Let \<open>finishMockExam\<close> run on an exam with questions \<open>Q\<close> and answers \<open>A\<close>. It
  appends one system message, the summary, and sets the state \<open>MOCK_EXAM_COMPLETED\<close>. The
  score in the summary is the number of positions below \<open>length Q\<close> that are answered
  correctly. The lines of the review are those of the positions answered wrongly, in
  increasing order, each with the learner's answer (\<open>No Answer\<close> when there is none at that
  position or it is empty) and the letter and text of the correct option; without such a
  position the summary ends with the congratulation. The percentage is \<open>0\<close> for an exam
  without questions; otherwise it is printed from the number \<open>n\<close> of tenths that
  \<open>toFixed(1)\<close> takes from the binary64 value of \<open>score / total * 100\<close>, and \<open>n / 10\<close>
  differs from the exact \<open>100 * score / total\<close> by at most \<open>1 / 20\<close>: it is that value
  rounded to one decimal place. The length of a JavaScript array is below \<open>2\<^sup>3\<^sup>2\<close>.
\<close>

theorem finishMockExam_reports_score:
  assumes "ex = \<lparr>questions = Q, currentQuestionIndex = c, answers = A\<rparr>"
      and "sc = length (filter (answered_correctly Q A) [0..<length Q])"
      and "wrong = filter (\<lambda>i. \<not> answered_correctly Q A i) [0..<length Q]"
      and "n = toFixed1_tenths (js_mul (js_div (of_nat sc) (of_nat (length Q))) 100)"
      and "length Q < 2 ^ 32"
  shows "finishMockExam ex s =
           s\<lparr>messages := messages s @
                 [\<lparr>sender = system, msg_text = summaryMessage ex, msg_references = None\<rparr>],
             appStatus := MOCK_EXAM_COMPLETED, inputDisabled := True\<rparr>
       \<and> summaryMessage ex =
           ''**Mock Exam Completed!**\<newline>\<newline>- **Score:** '' @ show_nat sc @ '' out of ''
           @ show_nat (length Q) @ '' ('' @ percentage sc (length Q) @ ''%)\<newline>\<newline>''
           @ (if wrong = [] then ''Excellent work! You answered all questions correctly!''
              else ''**Review your incorrect answers:**\<newline>\<newline>''
                   @ join ''\<newline>\<newline>''
                       (map (\<lambda>i. ''**Question '' @ show_nat (i + 1) @ '' (Topic: ''
                                   @ mq_topic (Q ! i) @ '')**\<newline>''
                                   @ ''- Your Answer: ''
                                   @ (if i < length A \<and> A ! i \<noteq> [] then A ! i else ''No Answer'')
                                   @ ''\<newline>''
                                   @ ''- Correct Answer: '' @ letter_text (correctAnswer (Q ! i))
                                   @ '': '' @ option_text (options (Q ! i)) (correctAnswer (Q ! i)))
                          wrong))
       \<and> (length Q = 0 \<longrightarrow> percentage sc (length Q) = ''0'')
       \<and> (0 < length Q \<longrightarrow>
             percentage sc (length Q) = show_int (n div 10) @ ''.'' @ show_int (n mod 10)
           \<and> \<bar>of_int n / 10 - 100 * of_nat sc / of_nat (length Q)\<bar> \<le> (1 / 20 :: rat))"
  (is "?finish \<and> ?summary \<and> ?none \<and> ?rounded")
proof -
  have 1: ?finish
    by (simp add: finishMockExam_def addMessage_def)
  have 2: ?summary
    unfolding summaryMessage_def assms(1)
    by (simp add: grade_from_start assms(2,3) result_line_def shown_answer_at Let_def)
  have 3: ?none
    by (simp add: percentage_def)
  have "sc \<le> length Q"
    unfolding assms(2) using length_filter_le [of "answered_correctly Q A" "[0..<length Q]"]
    by simp
  then have 4: ?rounded
    using percentage_tenths_nearest [of "length Q" sc] assms(5)
    by (simp add: percentage_eq assms(4))
  show ?thesis
    by (rule conjI [OF 1 conjI [OF 2 conjI [OF 3 4]]])
qed


theorem finishMockExam_reports_score_witness:
  "finishMockExam finished_exam sample_exam_state =
     sample_exam_state
       \<lparr>messages := messages sample_exam_state @
          [\<lparr>sender = system,
            msg_text = ''**Mock Exam Completed!**\<newline>\<newline>- **Score:** 2 out of 3 (66.7%)\<newline>\<newline>**Review your incorrect answers:**\<newline>\<newline>**Question 2 (Topic: Dependents)**\<newline>- Your Answer: D\<newline>- Correct Answer: B: second'',
            msg_references = None\<rparr>],
        appStatus := MOCK_EXAM_COMPLETED, inputDisabled := True\<rparr>
   \<and> \<bar>667 / 10 - 100 * 2 / 3\<bar> \<le> (1 / 20 :: rat)"
proof -
  have len: "length (questions finished_exam) = 3"
    by (simp add: finished_exam_def sample_exam_def)
  have e1: "finished_exam =
              \<lparr>questions = questions finished_exam, currentQuestionIndex = 3,
               answers = answers finished_exam\<rparr>"
    by (simp add: finished_exam_def sample_exam_def)
  have e2: "2 = length (filter (answered_correctly (questions finished_exam) (answers finished_exam))
                          [0..<length (questions finished_exam)])"
    by (simp only: finished_exam_graded)
  have e3: "[1] = filter (\<lambda>i. \<not> answered_correctly (questions finished_exam) (answers finished_exam) i)
                    [0..<length (questions finished_exam)]"
    by (simp only: finished_exam_graded)
  have e4: "667 = toFixed1_tenths
                    (js_mul (js_div (of_nat 2) (of_nat (length (questions finished_exam)))) 100)"
    by (simp add: len two_of_three_tenths)
  have e5: "length (questions finished_exam) < 2 ^ 32"
    by (simp add: len)
  note r = finishMockExam_reports_score [OF e1 e2 e3 e4 e5, of sample_exam_state]
  from r have "finishMockExam finished_exam sample_exam_state =
     sample_exam_state
       \<lparr>messages := messages sample_exam_state @
          [\<lparr>sender = system, msg_text = summaryMessage finished_exam, msg_references = None\<rparr>],
        appStatus := MOCK_EXAM_COMPLETED, inputDisabled := True\<rparr>"
    by (rule conjunct1)
  moreover from r have "\<bar>667 / 10 - 100 * 2 / 3\<bar> \<le> (1 / 20 :: rat)"
    by (simp add: len)
  ultimately show ?thesis
    by (simp only: finished_exam_summary simp_thms)
qed

text \<open>
  C8. With fewer than 5 passed lessons, \<open>handleStartMockExam\<close> issues no request and returns
  the state it was given with the rejection message appended. With at least 5 passed
  lessons it issues one request, for mock exam questions on the passed lessons, and the
  prompt that \<open>generateMockExamQuestions\<close> sends for them asks for
  \<open>clamp (passedCount div 2) 5 15\<close> questions.
\<close>

theorem handleStartMockExam_guard_and_count:
  "(length (passedLessons s) < 5 \<longrightarrow>
      handleStartMockExam svc s =
        (s\<lparr>messages := messages s @
              [\<lparr>sender = system,
                msg_text = ''You need to pass at least 5 topics to start a mock exam.'',
                msg_references = None\<rparr>]\<rparr>, []))
   \<and> (5 \<le> length (passedLessons s) \<longrightarrow>
        snd (handleStartMockExam svc s) = [GenerateMockExamQuestions (passedLessons s)]
      \<and> snd (generateMockExamQuestions generateContent JSON_parse (passedLessons s)) =
          [MockExamPrompt (clamp (int (length (passedLessons s)) div 2) 5 15)
             (join ''\<newline>'' (map (\<lambda>l. ''- '' @ topic l @ '': '' @ description l) (passedLessons s)))])"
  by (auto simp: handleStartMockExam_def Let_def addMessage_def generateMockExamQuestions_def
        questionCount_def clamp_def)

theorem handleStartMockExam_guard_and_count_witness:
  "snd (handleStartMockExam sample_service (exam_state 4)) = []
   \<and> messages (fst (handleStartMockExam sample_service (exam_state 4))) =
       [\<lparr>sender = system, msg_text = ''You need to pass at least 5 topics to start a mock exam.'',
         msg_references = None\<rparr>]
   \<and> appStatus (fst (handleStartMockExam sample_service (exam_state 4))) = IDLE
   \<and> snd (handleStartMockExam sample_service (exam_state 12)) =
       [GenerateMockExamQuestions (replicate 12 (filing_status passed 2))]
   \<and> map (\<lambda>p. case p of MockExamPrompt n t \<Rightarrow> n | _ \<Rightarrow> 0)
       (snd (generateMockExamQuestions empty_object_response sample_JSON_parse
              (replicate 12 (filing_status passed 2)))) = [6]"
  using handleStartMockExam_guard_and_count
          [of "exam_state 4" sample_service empty_object_response sample_JSON_parse]
        handleStartMockExam_guard_and_count
          [of "exam_state 12" sample_service empty_object_response sample_JSON_parse]
  by (simp add: exam_state_def sample_state_def passedLessons_def filing_status_def clamp_def
        numeral_eq_Suc)

subsection \<open>Start-up\<close>

text \<open>
  C9 does not hold for a collection loaded from storage. A plan of two lessons is
  initialised without saved progress: lesson 1 becomes active. The learner selects lesson
  2: lesson 1 is locked again and lesson 2 active. The page is loaded again with this
  collection as the saved one: lesson 1, the first lesson not passed, is locked and becomes
  active, and lesson 2 stays active, so two lessons are active.
\<close>

theorem reload_after_select_two_active:
  "(case initialize (mount (initial_lessons two_lessons None)) of
      Inl e \<Rightarrow> None
    | Inr s1 \<Rightarrow>
        (case handleSelectLesson 1 s1 of
           Inl e \<Rightarrow> None
         | Inr s2 \<Rightarrow>
             (case initialize (mount (initial_lessons two_lessons (Some (lessons s2)))) of
                Inl e \<Rightarrow> None
              | Inr s3 \<Rightarrow>
                  Some (map status (lessons s1), map status (lessons s2), map status (lessons s3)))))
   = Some ([active, locked], [locked, active], [active, active])"
  by (simp add: initialize_def mount_def initial_lessons_def two_lessons_def handleSelectLesson_def
        at_index_def Let_def Lesson.extend_def LessonProgress.fields_def)

end
